theory Spec2Isabelle
  imports Complex_Main
begin

section \<open>JavaScript numbers\<close>

text \<open>
  The TypeScript type \<open>number\<close> is an IEEE double. The model keeps the three
  non-finite values, which the code tests for with \<open>Number.isFinite\<close>, and takes
  every finite value as an exact rational: rounding to 53 bits, overflow to an
  infinity and the sign of zero are not modelled. The operators follow
  ECMAScript on the non-finite values.
\<close>

datatype number = Fin rat | PosInf | NegInf | NaN

fun Number_isFinite :: "number \<Rightarrow> bool" where
  "Number_isFinite (Fin x) = True"
| "Number_isFinite PosInf = False"
| "Number_isFinite NegInf = False"
| "Number_isFinite NaN = False"

text \<open>The sign of a number that is not NaN: \<open>-1\<close>, \<open>0\<close> or \<open>1\<close>.\<close>

fun signum :: "number \<Rightarrow> int" where
  "signum (Fin x) = (if x < 0 then -1 else if x = 0 then 0 else 1)"
| "signum PosInf = 1"
| "signum NegInf = -1"
| "signum NaN = 0"

definition signed_inf :: "int \<Rightarrow> number" where
  "signed_inf s = (if s < 0 then NegInf else PosInf)"

instantiation number :: "{plus, times, uminus, minus, inverse, modulo, ord, abs}"
begin

fun plus_number :: "number \<Rightarrow> number \<Rightarrow> number" where
  "plus_number NaN y = NaN"
| "plus_number x NaN = NaN"
| "plus_number (Fin x) (Fin y) = Fin (x + y)"
| "plus_number PosInf NegInf = NaN"
| "plus_number NegInf PosInf = NaN"
| "plus_number PosInf y = PosInf"
| "plus_number NegInf y = NegInf"
| "plus_number x PosInf = PosInf"
| "plus_number x NegInf = NegInf"

fun uminus_number :: "number \<Rightarrow> number" where
  "uminus_number (Fin x) = Fin (- x)"
| "uminus_number PosInf = NegInf"
| "uminus_number NegInf = PosInf"
| "uminus_number NaN = NaN"

definition minus_number :: "number \<Rightarrow> number \<Rightarrow> number" where
  "minus_number x y = x + (- y)"

fun times_number :: "number \<Rightarrow> number \<Rightarrow> number" where
  "times_number NaN y = NaN"
| "times_number x NaN = NaN"
| "times_number (Fin x) (Fin y) = Fin (x * y)"
| "times_number x y =
     (if signum x = 0 \<or> signum y = 0 then NaN else signed_inf (signum x * signum y))"

fun divide_number :: "number \<Rightarrow> number \<Rightarrow> number" where
  "divide_number NaN y = NaN"
| "divide_number x NaN = NaN"
| "divide_number (Fin x) (Fin y) =
     (if y = 0 then (if x = 0 then NaN else signed_inf (signum (Fin x))) else Fin (x / y))"
| "divide_number (Fin x) y = Fin 0"
| "divide_number x (Fin y) = signed_inf (if y < 0 then - signum x else signum x)"
| "divide_number x y = NaN"

definition inverse_number :: "number \<Rightarrow> number" where
  "inverse_number x = Fin 1 div x"

text \<open>The remainder operator \<open>%\<close>: the result has the sign of the dividend.\<close>

fun modulo_number :: "number \<Rightarrow> number \<Rightarrow> number" where
  "modulo_number (Fin x) (Fin y) =
     (if y = 0 then NaN else Fin (x - y * of_int (if x / y < 0 then \<lceil>x / y\<rceil> else \<lfloor>x / y\<rfloor>)))"
| "modulo_number (Fin x) PosInf = Fin x"
| "modulo_number (Fin x) NegInf = Fin x"
| "modulo_number x y = NaN"

fun less_number :: "number \<Rightarrow> number \<Rightarrow> bool" where
  "less_number NaN y = False"
| "less_number x NaN = False"
| "less_number (Fin x) (Fin y) = (x < y)"
| "less_number x PosInf = (x \<noteq> PosInf)"
| "less_number NegInf y = (y \<noteq> NegInf)"
| "less_number x y = False"

fun less_eq_number :: "number \<Rightarrow> number \<Rightarrow> bool" where
  "less_eq_number NaN y = False"
| "less_eq_number x NaN = False"
| "less_eq_number (Fin x) (Fin y) = (x \<le> y)"
| "less_eq_number x PosInf = True"
| "less_eq_number NegInf y = True"
| "less_eq_number x y = False"

fun abs_number :: "number \<Rightarrow> number" where
  "abs_number (Fin x) = Fin \<bar>x\<bar>"
| "abs_number PosInf = PosInf"
| "abs_number NegInf = PosInf"
| "abs_number NaN = NaN"

instance ..

end

fun Math_floor :: "number \<Rightarrow> number" where
  "Math_floor (Fin x) = Fin (of_int \<lfloor>x\<rfloor>)"
| "Math_floor x = x"

text \<open>\<open>Math.trunc\<close> drops the fraction, towards zero.\<close>

fun Math_trunc :: "number \<Rightarrow> number" where
  "Math_trunc (Fin x) = Fin (of_int (if x < 0 then \<lceil>x\<rceil> else \<lfloor>x\<rfloor>))"
| "Math_trunc x = x"

text \<open>\<open>Math.round\<close> gives the nearest integer, a tie going towards \<open>+\<infinity>\<close>.\<close>

fun Math_round :: "number \<Rightarrow> number" where
  "Math_round (Fin x) = Fin (of_int \<lfloor>x + 1 / 2\<rfloor>)"
| "Math_round x = x"

fun Number_isInteger :: "number \<Rightarrow> bool" where
  "Number_isInteger (Fin x) = (of_int \<lfloor>x\<rfloor> = x)"
| "Number_isInteger x = False"

definition Number_EPSILON :: number where
  "Number_EPSILON = Fin (1 / 2 ^ 52)"


section \<open>The arrangement solver (src/core/arrangement.ts)\<close>

type_synonym ArrangementCounts = "number \<times> number \<times> number"

record ArrangementInput =
  width :: number
  depth :: number
  height :: number

record ArrangementResult = ArrangementInput +
  cubeFeet :: number
  counts :: ArrangementCounts

text \<open>
  The key \<open>perm.join("x")\<close> of a triple of numbers determines the triple, so a
  \<open>Set<string>\<close> of keys is modelled as the set of the triples themselves. The
  pair is the set of keys seen and the array \<open>results\<close>.
\<close>

type_synonym seen_results = "ArrangementCounts set \<times> ArrangementCounts list"

definition push_unseen :: "seen_results \<Rightarrow> ArrangementCounts \<Rightarrow> seen_results" where
  "push_unseen st perm =
     (if perm \<notin> fst st then (insert perm (fst st), snd st @ [perm]) else st)"

definition uniquePermutations :: "ArrangementCounts \<Rightarrow> ArrangementCounts list" where
  "uniquePermutations triple =
     (case triple of (t0, t1, t2) \<Rightarrow>
        snd (foldl push_unseen ({}, [])
          [(t0, t1, t2), (t0, t2, t1), (t1, t0, t2), (t1, t2, t0), (t2, t0, t1), (t2, t1, t0)]))"

text \<open>
  The two \<open>for\<close> loops of \<open>generateFactorTriples\<close>. Their bounds are numbers, and
  with an infinite bound the loop never ends: the result \<open>None\<close> is a call that
  does not return.
\<close>

partial_function (option) generateFactorTriples_b ::
  "number \<Rightarrow> number \<Rightarrow> number \<Rightarrow> seen_results \<Rightarrow> seen_results option" where
  "generateFactorTriples_b a quot b st =
     (if b \<le> quot then
        (if quot mod b \<noteq> Fin 0 then generateFactorTriples_b a quot (b + Fin 1) st
         else generateFactorTriples_b a quot (b + Fin 1)
                (foldl push_unseen st (uniquePermutations (a, b, quot / b))))
      else Some st)"

declare generateFactorTriples_b.simps [code]

partial_function (option) generateFactorTriples_a ::
  "number \<Rightarrow> number \<Rightarrow> seen_results \<Rightarrow> seen_results option" where
  "generateFactorTriples_a absQty a st =
     (if a \<le> absQty then
        (if absQty mod a \<noteq> Fin 0 then generateFactorTriples_a absQty (a + Fin 1) st
         else Option.bind (generateFactorTriples_b a (absQty / a) (Fin 1) st)
                (\<lambda>st'. generateFactorTriples_a absQty (a + Fin 1) st'))
      else Some st)"

declare generateFactorTriples_a.simps [code]

definition generateFactorTriples :: "number \<Rightarrow> ArrangementCounts list option" where
  "generateFactorTriples quantity =
     (let absQty = Math_floor \<bar>quantity\<bar>
      in if absQty \<le> Fin 0 then Some []
         else map_option snd (generateFactorTriples_a absQty (Fin 1) ({}, [])))"

text \<open>
  The body of the loop of \<open>computeBestArrangement\<close> up to the \<open>continue\<close>: the
  candidate of a triple of counts, or \<open>None\<close> when a dimension is not finite or
  not positive.
\<close>

definition candidate ::
  "ArrangementInput \<Rightarrow> number \<Rightarrow> ArrangementCounts \<Rightarrow> ArrangementResult option" where
  "candidate dims bufferInch cnts =
     (case cnts of (countW, countD, countH) \<Rightarrow>
        let w = countW * width dims + bufferInch;
            d = countD * depth dims + bufferInch;
            h = countH * height dims + bufferInch
        in if list_ex (\<lambda>value. \<not> Number_isFinite value \<or> value \<le> Fin 0) [w, d, h] then None
           else Some \<lparr>width = w, depth = d, height = h,
                      cubeFeet = (w * d * h) / Fin 1728, counts = cnts\<rparr>)"

definition keep_best ::
  "ArrangementInput \<Rightarrow> number \<Rightarrow> ArrangementResult option \<Rightarrow> ArrangementCounts
     \<Rightarrow> ArrangementResult option" where
  "keep_best dims bufferInch best cnts =
     (case candidate dims bufferInch cnts of
        None \<Rightarrow> best
      | Some c \<Rightarrow>
          (case best of
             None \<Rightarrow> Some c
           | Some b \<Rightarrow> if cubeFeet c < cubeFeet b then Some c else best))"

text \<open>
  \<open>computeBestArrangement\<close>: the outer \<open>None\<close> is a call that does not return,
  \<open>Some None\<close> is the result \<open>null\<close>.
\<close>

definition computeBestArrangement ::
  "number \<Rightarrow> ArrangementInput \<Rightarrow> number \<Rightarrow> ArrangementResult option option" where
  "computeBestArrangement quantity dims bufferInch =
     (case generateFactorTriples quantity of
        None \<Rightarrow> None
      | Some triples \<Rightarrow>
          Some (if triples = [] then None
                else foldl (keep_best dims bufferInch) None triples))"

text \<open>
  For a finite quantity the loops are bounded. Over the natural numbers they are
  the following folds, which the loops above are shown to compute
  (\<open>generateFactorTriples_Fin\<close> below).
\<close>

definition tri :: "nat \<Rightarrow> nat \<Rightarrow> nat \<Rightarrow> ArrangementCounts" where
  "tri a b c = (Fin (of_nat a), Fin (of_nat b), Fin (of_nat c))"

definition step_b :: "nat \<Rightarrow> nat \<Rightarrow> seen_results \<Rightarrow> nat \<Rightarrow> seen_results" where
  "step_b a m st b =
     (if m mod b \<noteq> 0 then st
      else foldl push_unseen st (uniquePermutations (tri a b (m div b))))"

definition step_a :: "nat \<Rightarrow> seen_results \<Rightarrow> nat \<Rightarrow> seen_results" where
  "step_a n st a =
     (if n mod a \<noteq> 0 then st else foldl (step_b a (n div a)) st [1..<Suc (n div a)])"

definition factor_triples :: "nat \<Rightarrow> ArrangementCounts list" where
  "factor_triples n = snd (foldl (step_a n) ({}, []) [1..<Suc n])"

text \<open>
  The full enumeration of candidates of the specification: the candidates of
  the triples that survive the filter, in the order of the enumeration.
\<close>

definition candidates ::
  "ArrangementInput \<Rightarrow> number \<Rightarrow> ArrangementCounts list \<Rightarrow> ArrangementResult list" where
  "candidates dims bufferInch triples = List.map_filter (candidate dims bufferInch) triples"

text \<open>A triple of positive integers whose product is \<open>n\<close>.\<close>

definition factorisation :: "nat \<Rightarrow> ArrangementCounts \<Rightarrow> bool" where
  "factorisation n t \<longleftrightarrow>
     (\<exists>a b c. t = (Fin (of_nat a), Fin (of_nat b), Fin (of_nat c))
        \<and> 0 < a \<and> 0 < b \<and> 0 < c \<and> a * b * c = n)"

text \<open>The invariant of the loops: the set holds what the array holds, and the array has no duplicates.\<close>

definition tidy :: "seen_results \<Rightarrow> bool" where
  "tidy st \<longleftrightarrow> fst st = set (snd st) \<and> distinct (snd st)"

section \<open>Cell values and strings\<close>

text \<open>
  A JavaScript string is a sequence of UTF-16 code units. \<open>Number(s)\<close> on a string
  is the ECMAScript operation \<open>StringToNumber\<close>, which is not code of the
  repository; it is written out here from the grammar \<open>StringNumericLiteral\<close> of
  the language specification, with the value of a decimal literal taken exactly
  (no rounding to a double, no overflow to \<open>Infinity\<close>).
\<close>

type_synonym jsstring = "nat list"

definition isStrWhiteSpaceChar :: "nat \<Rightarrow> bool" where
  "isStrWhiteSpaceChar c \<longleftrightarrow>
     c \<in> {0x09, 0x0B, 0x0C, 0xFEFF, 0x20, 0xA0, 0x1680, 0x202F, 0x205F, 0x3000,
          0x0A, 0x0D, 0x2028, 0x2029}
     \<or> (0x2000 \<le> c \<and> c \<le> 0x200A)"

definition trim_ws :: "jsstring \<Rightarrow> jsstring" where
  "trim_ws s = rev (dropWhile isStrWhiteSpaceChar (rev (dropWhile isStrWhiteSpaceChar s)))"

text \<open>The value of a digit in a radix, \<open>None\<close> for any other code unit.\<close>

definition digit_value :: "nat \<Rightarrow> nat \<Rightarrow> nat option" where
  "digit_value radix c =
     (let v = (if 48 \<le> c \<and> c \<le> 57 then c - 48
               else if 97 \<le> c \<and> c \<le> 102 then c - 87
               else if 65 \<le> c \<and> c \<le> 70 then c - 55
               else radix)
      in if v < radix then Some v else None)"

definition isDecimalDigit :: "nat \<Rightarrow> bool" where
  "isDecimalDigit c \<longleftrightarrow> 48 \<le> c \<and> c \<le> 57"

definition digits_value :: "nat \<Rightarrow> jsstring \<Rightarrow> nat" where
  "digits_value radix ds =
     foldl (\<lambda>acc c. acc * radix + (case digit_value radix c of None \<Rightarrow> 0 | Some v \<Rightarrow> v)) 0 ds"

definition Digits :: "nat \<Rightarrow> jsstring \<Rightarrow> nat option" where
  "Digits radix ds =
     (if ds \<noteq> [] \<and> list_all (\<lambda>c. digit_value radix c \<noteq> None) ds
      then Some (digits_value radix ds) else None)"

text \<open>\<open>0b\<close>, \<open>0o\<close> and \<open>0x\<close> literals (either case of the letter), without a sign.\<close>

definition NonDecimalIntegerLiteral :: "jsstring \<Rightarrow> nat option" where
  "NonDecimalIntegerLiteral t =
     (case t of
        c0 # c1 # ds \<Rightarrow>
          if c0 \<noteq> 48 then None
          else if c1 = 98 \<or> c1 = 66 then Digits 2 ds
          else if c1 = 111 \<or> c1 = 79 then Digits 8 ds
          else if c1 = 120 \<or> c1 = 88 then Digits 16 ds
          else None
      | _ \<Rightarrow> None)"

definition SignedInteger :: "jsstring \<Rightarrow> int option" where
  "SignedInteger r =
     (case r of
        [] \<Rightarrow> None
      | c # ds \<Rightarrow>
          if c = 43 then map_option int (Digits 10 ds)
          else if c = 45 then map_option (\<lambda>n. - int n) (Digits 10 ds)
          else map_option int (Digits 10 r))"

definition ExponentPart_opt :: "jsstring \<Rightarrow> int option" where
  "ExponentPart_opt r =
     (case r of
        [] \<Rightarrow> Some 0
      | c # ds \<Rightarrow> if c = 101 \<or> c = 69 then SignedInteger ds else None)"

definition StrUnsignedDecimalLiteral :: "jsstring \<Rightarrow> number" where
  "StrUnsignedDecimalLiteral t =
     (if t = [73, 110, 102, 105, 110, 105, 116, 121] then PosInf
      else
        let ip = takeWhile isDecimalDigit t;
            r1 = dropWhile isDecimalDigit t;
            dot = (r1 \<noteq> [] \<and> hd r1 = 46);
            fp = (if dot then takeWhile isDecimalDigit (tl r1) else []);
            r2 = (if dot then dropWhile isDecimalDigit (tl r1) else r1)
        in if ip = [] \<and> fp = [] then NaN
           else case ExponentPart_opt r2 of
                  None \<Rightarrow> NaN
                | Some e \<Rightarrow>
                    Fin (of_nat (digits_value 10 (ip @ fp)) * power_int 10 (e - int (length fp))))"

definition StrDecimalLiteral :: "jsstring \<Rightarrow> number" where
  "StrDecimalLiteral t =
     (case t of
        [] \<Rightarrow> NaN
      | c # r \<Rightarrow>
          if c = 43 then StrUnsignedDecimalLiteral r
          else if c = 45 then - StrUnsignedDecimalLiteral r
          else StrUnsignedDecimalLiteral t)"

definition StringToNumber :: "jsstring \<Rightarrow> number" where
  "StringToNumber s =
     (let t = trim_ws s
      in if t = [] then Fin 0
         else case NonDecimalIntegerLiteral t of
                Some v \<Rightarrow> Fin (of_nat v)
              | None \<Rightarrow> StrDecimalLiteral t)"

text \<open>
  A cell value (\<open>unknown\<close> in the source): what the host hands out for a field of
  a record. An object is the list of its properties.
\<close>

datatype cell =
    Undefined
  | Null
  | Boolean bool
  | Num number
  | Str jsstring
  | Arr "cell list"
  | Obj "(string \<times> cell) list"

section \<open>Unit conversion, rounding and extraction (src/utils/numbers.ts)\<close>

datatype BufferUnit = inch | cm

definition convertBufferToInches :: "number \<Rightarrow> BufferUnit \<Rightarrow> number" where
  "convertBufferToInches value unit =
     (let CM_PER_INCH = Fin (254 / 100)
      in if \<not> Number_isFinite value then Fin 0
         else if unit = cm then value / CM_PER_INCH else value)"

text \<open>
  \<open>round(value, fractionDigits = 2)\<close>; the number of fraction digits is an
  integer, so that \<open>10 ** fractionDigits\<close> is a rational.
\<close>

definition round_to :: "number \<Rightarrow> int \<Rightarrow> number" where
  "round_to value fractionDigits =
     (let factor = Fin (power_int 10 fractionDigits)
      in Math_round ((value + Number_EPSILON) * factor) / factor)"

fun extractNumber :: "cell \<Rightarrow> number option" where
  "extractNumber Undefined = None"
| "extractNumber Null = None"
| "extractNumber (Num x) = (if Number_isFinite x then Some x else None)"
| "extractNumber (Str s) =
     (let parsed = StringToNumber s in if Number_isFinite parsed then Some parsed else None)"
| "extractNumber (Obj props) =
     (case map_of props ''value'' of
        Some (Num maybeNumber) \<Rightarrow> if Number_isFinite maybeNumber then Some maybeNumber else None
      | _ \<Rightarrow> None)"
| "extractNumber (Arr xs) = None"
| "extractNumber (Boolean b) = None"


section \<open>The packing cascade: the host and the run\<close>

text \<open>
  The host (table, view, notification sink) is not code of the repository. It is
  a store: a table maps a record id to the cells of the record, a map from
  field id to cell value; \<open>getRecordById\<close> rejects for an unknown record, and
  \<open>setCellValue\<close> rejects for an unknown record or where the predicate \<open>rejects\<close>
  of the table says so. The view lists record ids, some of them possibly
  \<open>undefined\<close>; a view that fails ends \<open>runCalculation\<close> with an exception before
  the first record, which is not modelled.
\<close>

datatype InnerMaterial = Box | PolyBag

datatype FieldKey =
    ItemHeight | ItemWidth | ItemDepth | ItemWeight
  | InnerWidth | InnerDepth | InnerHeight | InnerWeight
  | InnerQty | MasterQty
  | MasterHeight | MasterWidth | MasterDepth
  | GrossWeight | NetWeight

text \<open>\<open>FieldIds\<close>: the field id of every key, the empty string for a field that was not found.\<close>

type_synonym FieldIds = "FieldKey \<Rightarrow> string"

record Table =
  rows :: "string \<rightharpoonup> (string \<rightharpoonup> cell)"
  rejects :: "string \<Rightarrow> string \<Rightarrow> bool"

record View =
  selectedRecordIdList :: "string option list"
  visibleRecordIdList :: "string option list"

record PluginContext =
  table :: Table
  view :: View
  fieldIds :: FieldIds

record CalculationOptions =
  forceAll :: bool
  innerBuffer :: number
  innerBufferUnit :: BufferUnit
  masterBuffer :: number
  masterBufferUnit :: BufferUnit
  innerMaterial :: InnerMaterial

definition getRecordById :: "Table \<Rightarrow> string \<Rightarrow> (string \<rightharpoonup> cell) option" where
  "getRecordById t recordId = rows t recordId"

definition setCellValue :: "Table \<Rightarrow> string \<Rightarrow> string \<Rightarrow> cell \<Rightarrow> Table option" where
  "setCellValue t fieldId recordId v =
     (case rows t recordId of
        None \<Rightarrow> None
      | Some fs \<Rightarrow>
          if rejects t fieldId recordId then None
          else Some (t\<lparr>rows := (rows t)(recordId \<mapsto> fs(fieldId \<mapsto> v))\<rparr>))"

text \<open>
  The messages handed to \<open>onLog\<close>. The label of a record is its position in the
  list, from one, and its record id; the text of the messages and the item code
  that the unnamed file puts into the label in place of the record id are not
  modelled.
\<close>

type_synonym label = "nat \<times> string"

datatype Msg =
    NoRecords
  | Starting nat
  | IncompleteDims label
  | InnerQtyNotInteger label
  | MasterQtyNotInteger label
  | MissingForInner label
  | NoInnerArrangement label
  | InnerUpdated label number number number
  | InnerWeightFilled label number
  | InnerWeightMissing label
  | NoInner label
  | MasterQtyMissing label
  | RatioInvalid label number number
  | NotDivisible label number number
  | MissingInnerDims label
  | MissingDimsForMaster label
  | NoMasterArrangement label
  | MasterUpdated label number number number
  | NetWeightCleared label
  | NetWeightUpdated label number
  | NetWeightNoField label number
  | Failed label
  | Summary nat nat

text \<open>
  The state of a run: the table, the messages logged so far, the number of
  warning toasts shown and the counter \<open>processed\<close>.
\<close>

record Run =
  tbl :: Table
  logs :: "Msg list"
  toasts :: nat
  processed :: nat

text \<open>
  The result of a piece of the loop body: it went through with a value; or it
  ran \<open>processed += 1; continue\<close> (also by reaching the end of the body); or it
  raised an exception; or it does not return. The state comes with the first
  three, since what was logged and written before an exception stays.
\<close>

datatype 'a res = Ok 'a Run | Continue Run | Raise Run | Hang

definition bind_res :: "'a res \<Rightarrow> ('a \<Rightarrow> Run \<Rightarrow> 'b res) \<Rightarrow> 'b res" where
  "bind_res r k =
     (case r of Ok x st \<Rightarrow> k x st | Continue st \<Rightarrow> Continue st | Raise st \<Rightarrow> Raise st
      | Hang \<Rightarrow> Hang)"

definition onLog :: "Msg \<Rightarrow> Run \<Rightarrow> Run" where
  "onLog m st = st\<lparr>logs := logs st @ [m]\<rparr>"

text \<open>\<open>processed += 1; continue\<close>, and the same at the end of the body.\<close>

definition counted :: "Run \<Rightarrow> 'a res" where
  "counted st = Continue (st\<lparr>processed := processed st + 1\<rparr>)"

text \<open>The call of the solver: a \<open>null\<close> result is logged and the record counted.\<close>

definition solve_or_skip ::
  "Msg \<Rightarrow> number \<Rightarrow> ArrangementInput \<Rightarrow> number \<Rightarrow> Run \<Rightarrow> ArrangementResult res" where
  "solve_or_skip m quantity dims bufferInch st =
     (case computeBestArrangement quantity dims bufferInch of
        None \<Rightarrow> Hang
      | Some None \<Rightarrow> counted (onLog m st)
      | Some (Some arrangement) \<Rightarrow> Ok arrangement st)"

text \<open>
  \<open>await Promise.all(updates)\<close>: every \<open>setCellValue\<close> of the array was called when
  the array was built, so every write is attempted, in that order; the await
  raises when one of them rejects.
\<close>

type_synonym updates = "(string \<times> cell) list"

definition issue :: "string \<Rightarrow> bool \<times> Table \<Rightarrow> string \<times> cell \<Rightarrow> bool \<times> Table" where
  "issue recordId acc u =
     (case setCellValue (snd acc) (fst u) recordId (snd u) of
        None \<Rightarrow> (True, snd acc)
      | Some t \<Rightarrow> (fst acc, t))"

definition Promise_all :: "string \<Rightarrow> updates \<Rightarrow> Run \<Rightarrow> unit res" where
  "Promise_all recordId us st =
     (let r = foldl (issue recordId) (False, tbl st) us;
          st' = st\<lparr>tbl := snd r\<rparr>
      in if fst r then Raise st' else Ok () st')"

text \<open>
  \<open>bitable.ui.showToast\<close> inside its own \<open>try\<close>: a failure of the sink is swallowed.
  The sink is modelled as one that works.
\<close>

definition showToast :: "Run \<Rightarrow> Run" where
  "showToast st = st\<lparr>toasts := toasts st + 1\<rparr>"

subsection \<open>What the two files share\<close>

definition isPositive :: "number option \<Rightarrow> bool" where
  "isPositive value \<longleftrightarrow>
     (case value of None \<Rightarrow> False | Some v \<Rightarrow> Number_isFinite v \<and> Fin 0 < v)"

text \<open>A number or \<open>null\<close> in a condition: \<open>null\<close>, zero and NaN are falsy.\<close>

definition truthy :: "number option \<Rightarrow> bool" where
  "truthy value \<longleftrightarrow> (case value of None \<Rightarrow> False | Some v \<Rightarrow> v \<noteq> Fin 0 \<and> v \<noteq> NaN)"

definition normaliseIds :: "string option list \<Rightarrow> string list" where
  "normaliseIds list = List.map_filter (\<lambda>id. case id of None \<Rightarrow> None
                                        | Some s \<Rightarrow> if s = [] then None else Some s) list"

definition fetchValue :: "FieldIds \<Rightarrow> (string \<rightharpoonup> cell) \<Rightarrow> FieldKey \<Rightarrow> number option" where
  "fetchValue fids cells key =
     (let fieldId = fids key
      in if fieldId = [] then None
         else extractNumber (case cells fieldId of None \<Rightarrow> Undefined | Some cellValue \<Rightarrow> cellValue))"

text \<open>\<open>[x, y, z].find(isPositive)\<close>: the first positive entry, or \<open>undefined\<close>.\<close>

definition find_positive :: "number option list \<Rightarrow> number option" where
  "find_positive xs = (case List.find isPositive xs of None \<Rightarrow> None | Some v \<Rightarrow> v)"

text \<open>The record ids of a run: the selection, or the visible records.\<close>

definition recordIds_of :: "PluginContext \<Rightarrow> CalculationOptions \<Rightarrow> string list" where
  "recordIds_of ctx options =
     (let selectedIds = normaliseIds (selectedRecordIdList (view ctx))
      in if forceAll options then normaliseIds (visibleRecordIdList (view ctx))
         else if length selectedIds > 0 then selectedIds
         else normaliseIds (visibleRecordIdList (view ctx)))"

definition INNER_BOX_PACKAGING_WEIGHT_G :: number where
  "INNER_BOX_PACKAGING_WEIGHT_G = Fin 100"

definition GRAM_TO_POUND :: number where
  "GRAM_TO_POUND = Fin (220462 / 100000000)"

definition formatRecordLabel :: "string \<Rightarrow> nat \<Rightarrow> label" where
  "formatRecordLabel recordId index = (index + 1, recordId)"

text \<open>
  The master carton on top of inner cartons: the cell is, on each axis, the first
  positive value of the inner arrangement, the stored inner dimension and the
  unit dimension. These lines are the same in the two files.
\<close>

definition master_of_inners ::
  "label \<Rightarrow> number \<Rightarrow> ArrangementResult option
     \<Rightarrow> number option \<times> number option \<times> number option
     \<Rightarrow> number option \<times> number option \<times> number option
     \<Rightarrow> number \<Rightarrow> Run \<Rightarrow> ArrangementResult res" where
  "master_of_inners lbl innersPerMaster innerArrangement existing item masterBufferInches st =
     (case (existing, item) of
        ((existingInnerWidth, existingInnerDepth, existingInnerHeight),
         (itemW, itemD, itemH)) \<Rightarrow>
          let baseWidth =
                find_positive [map_option width innerArrangement, existingInnerWidth, itemW];
              baseDepth =
                find_positive [map_option depth innerArrangement, existingInnerDepth, itemD];
              baseHeight =
                find_positive [map_option height innerArrangement, existingInnerHeight, itemH]
          in if \<not> truthy baseWidth \<or> \<not> truthy baseDepth \<or> \<not> truthy baseHeight
             then counted (onLog (MissingInnerDims lbl) st)
             else
               (case (baseWidth, baseDepth, baseHeight) of
                  (Some bw, Some bd, Some bh) \<Rightarrow>
                    solve_or_skip (NoMasterArrangement lbl) innersPerMaster
                      \<lparr>width = bw, depth = bd, height = bh\<rparr> masterBufferInches st
                | _ \<Rightarrow> counted (onLog (MissingInnerDims lbl) st)))"

text \<open>The gate on the master quantity, with the warning toast for exactly zero.\<close>

definition master_gate :: "label \<Rightarrow> number \<Rightarrow> Run \<Rightarrow> unit res" where
  "master_gate lbl masterQ st =
     (if masterQ \<le> Fin 0 then
        (let st1 = onLog (MasterQtyMissing lbl) st;
             st2 = (if masterQ = Fin 0 then showToast st1 else st1)
         in counted st2)
      else Ok () st)"

text \<open>The three writes of the dimensions of an arrangement, rounded to 3 digits.\<close>

definition write_dims :: "string \<Rightarrow> string \<Rightarrow> string \<Rightarrow> ArrangementResult \<Rightarrow> updates" where
  "write_dims fw fd fh arrangement =
     [(fw, Num (round_to (width arrangement) 3)),
      (fd, Num (round_to (depth arrangement) 3)),
      (fh, Num (round_to (height arrangement) 3))]"

section \<open>The packing cascade of src/core/calculator.ts\<close>

definition computePackagingWeightLb ::
  "number \<Rightarrow> number option \<Rightarrow> InnerMaterial \<Rightarrow> number option" where
  "computePackagingWeightLb innerQ itemWt material =
     (if innerQ \<le> Fin 0 then None
      else case itemWt of
             None \<Rightarrow> None
           | Some w \<Rightarrow>
               if \<not> Number_isFinite w then None
               else
                 let packagingWeight =
                       (if material = PolyBag then Fin 0 else INNER_BOX_PACKAGING_WEIGHT_G);
                     totalGrams = innerQ * w + packagingWeight
                 in Some (totalGrams * GRAM_TO_POUND))"

text \<open>
  The inner level of the loop body. Its value is \<open>innerArrangement\<close> and
  \<open>innerGrossWeightLb\<close>, both \<open>null\<close> unless the inner carton was computed.
\<close>

definition calculator_inner ::
  "FieldIds \<Rightarrow> CalculationOptions \<Rightarrow> label \<Rightarrow> string
     \<Rightarrow> number option \<times> number option \<times> number option \<Rightarrow> number option \<Rightarrow> number
     \<Rightarrow> Run \<Rightarrow> (ArrangementResult option \<times> number option) res" where
  "calculator_inner fids options lbl recordId item itemWt innerQ st =
     (let innerBufferInches = convertBufferToInches (innerBuffer options) (innerBufferUnit options)
      in if Fin 0 < innerQ then
           (case (item, itemWt) of
              ((Some iw, Some idp, Some ih), Some iwt) \<Rightarrow>
                (case computeBestArrangement innerQ
                        \<lparr>width = iw, depth = idp, height = ih\<rparr> innerBufferInches of
                   None \<Rightarrow> Hang
                 | Some None \<Rightarrow> Ok (None, None) (onLog (NoInnerArrangement lbl) st)
                 | Some (Some arrangement) \<Rightarrow>
                     let innerGrossWeightLb =
                           computePackagingWeightLb innerQ (Some iwt) (innerMaterial options);
                         innerUpdates =
                           write_dims (fids InnerWidth) (fids InnerDepth) (fids InnerHeight)
                             arrangement
                           @ (case innerGrossWeightLb of
                                None \<Rightarrow> []
                              | Some g \<Rightarrow>
                                  if fids InnerWeight \<noteq> []
                                  then [(fids InnerWeight, Num (round_to g 3))] else [])
                     in bind_res (Promise_all recordId innerUpdates st)
                          (\<lambda>u st'. Ok (Some arrangement, innerGrossWeightLb)
                             (onLog (InnerUpdated lbl (width arrangement) (depth arrangement)
                                       (height arrangement)) st')))
            | _ \<Rightarrow> Ok (None, None) (onLog (MissingForInner lbl) st))
         else Ok (None, None) (onLog (NoInner lbl) st))"

text \<open>
  The master level. Its value is \<open>masterArrangement\<close> and \<open>netWeightKg\<close>.
\<close>

definition calculator_master ::
  "CalculationOptions \<Rightarrow> label
     \<Rightarrow> number option \<times> number option \<times> number option \<Rightarrow> number option
     \<Rightarrow> number \<Rightarrow> number
     \<Rightarrow> number option \<times> number option \<times> number option \<Rightarrow> number option
     \<Rightarrow> ArrangementResult option \<Rightarrow> number option
     \<Rightarrow> Run \<Rightarrow> (ArrangementResult \<times> number option) res" where
  "calculator_master options lbl item itemWt innerQ masterQ existing existingInnerWeightLb
       innerArrangement innerGrossWeightLb st =
     (let masterBufferInches =
            convertBufferToInches (masterBuffer options) (masterBufferUnit options)
      in if Fin 0 < innerQ then
           (let innersPerMaster = masterQ / innerQ
            in if \<not> Number_isInteger innersPerMaster \<or> innersPerMaster \<le> Fin 0
               then counted (onLog (NotDivisible lbl masterQ innerQ) st)
               else
                 bind_res (master_of_inners lbl innersPerMaster innerArrangement existing item
                             masterBufferInches st)
                   (\<lambda>masterArrangement st'.
                      let innerWeightSourceLb =
                            (case innerGrossWeightLb of
                               Some g \<Rightarrow> Some g
                             | None \<Rightarrow>
                                 (case existingInnerWeightLb of
                                    Some e \<Rightarrow> Some e
                                  | None \<Rightarrow>
                                      computePackagingWeightLb innerQ itemWt
                                        (innerMaterial options)));
                          netWeightKg =
                            (case innerWeightSourceLb of
                               Some src \<Rightarrow> Some (src * innersPerMaster * Fin (4536 / 10000))
                             | None \<Rightarrow>
                                 (case itemWt of
                                    Some iwt \<Rightarrow> Some ((iwt / Fin 1000) * masterQ)
                                  | None \<Rightarrow> None))
                      in Ok (masterArrangement, netWeightKg) st'))
         else
           (case item of
              (itemW, itemD, itemH) \<Rightarrow>
                if \<not> isPositive itemW \<or> \<not> isPositive itemD \<or> \<not> isPositive itemH
                then counted (onLog (MissingDimsForMaster lbl) st)
                else
                  (case item of
                     (Some iw, Some idp, Some ih) \<Rightarrow>
                       bind_res (solve_or_skip (NoMasterArrangement lbl) masterQ
                                   \<lparr>width = iw, depth = idp, height = ih\<rparr> masterBufferInches st)
                         (\<lambda>masterArrangement st'.
                            Ok (masterArrangement,
                                (case itemWt of
                                   Some iwt \<Rightarrow> Some ((iwt / Fin 1000) * masterQ)
                                 | None \<Rightarrow> None)) st')
                   | _ \<Rightarrow> counted (onLog (MissingDimsForMaster lbl) st))))"

text \<open>The body of the loop, inside the \<open>try\<close>.\<close>

definition calculator_body ::
  "PluginContext \<Rightarrow> CalculationOptions \<Rightarrow> nat \<Rightarrow> string \<Rightarrow> Run \<Rightarrow> unit res" where
  "calculator_body ctx options index recordId st =
     (let lbl = formatRecordLabel recordId index; fids = fieldIds ctx
      in case getRecordById (tbl st) recordId of
           None \<Rightarrow> Raise st
         | Some cells \<Rightarrow>
             let itemW = fetchValue fids cells ItemWidth;
                 itemD = fetchValue fids cells ItemDepth;
                 itemH = fetchValue fids cells ItemHeight;
                 itemWt = fetchValue fids cells ItemWeight;
                 innerQtyRaw = fetchValue fids cells InnerQty;
                 masterQtyRaw = fetchValue fids cells MasterQty
             in if \<not> isPositive itemW \<or> \<not> isPositive itemD \<or> \<not> isPositive itemH
                then counted (onLog (IncompleteDims lbl) st)
                else
                  let innerQ = (case innerQtyRaw of
                                  Some v \<Rightarrow> if truthy innerQtyRaw then Math_trunc v else Fin 0
                                | None \<Rightarrow> Fin 0);
                      masterQ = (case masterQtyRaw of
                                   Some v \<Rightarrow> if truthy masterQtyRaw then Math_trunc v else Fin 0
                                 | None \<Rightarrow> Fin 0);
                      existing = (fetchValue fids cells InnerWidth,
                                  fetchValue fids cells InnerDepth,
                                  fetchValue fids cells InnerHeight);
                      existingInnerWeightLb = fetchValue fids cells InnerWeight
                  in bind_res
                       (calculator_inner fids options lbl recordId (itemW, itemD, itemH) itemWt
                          innerQ st)
                       (\<lambda>inner st1.
                          bind_res (master_gate lbl masterQ st1)
                            (\<lambda>u st2.
                               bind_res
                                 (calculator_master options lbl (itemW, itemD, itemH) itemWt
                                    innerQ masterQ existing existingInnerWeightLb
                                    (fst inner) (snd inner) st2)
                                 (\<lambda>master st3.
                                    let masterArrangement = fst master;
                                        updates =
                                          write_dims (fids MasterWidth) (fids MasterDepth)
                                            (fids MasterHeight) masterArrangement
                                          @ (case snd master of
                                               None \<Rightarrow> []
                                             | Some netWeightKg \<Rightarrow>
                                                 if fids NetWeight \<noteq> []
                                                 then [(fids NetWeight,
                                                        Num (round_to netWeightKg 3))]
                                                 else [])
                                    in bind_res (Promise_all recordId updates st3)
                                         (\<lambda>u st4.
                                            counted
                                              (onLog (MasterUpdated lbl (width masterArrangement)
                                                        (depth masterArrangement)
                                                        (height masterArrangement)) st4))))))"

text \<open>
  The loop over the record ids with their positions: an exception of the body is
  caught and logged, and the loop goes on. \<open>None\<close> is a run that does not return.
\<close>

fun calculator_loop ::
  "PluginContext \<Rightarrow> CalculationOptions \<Rightarrow> (nat \<times> string) list \<Rightarrow> Run \<Rightarrow> Run option" where
  "calculator_loop ctx options [] st = Some st"
| "calculator_loop ctx options (e # entries) st =
     (case calculator_body ctx options (fst e) (snd e) st of
        Hang \<Rightarrow> None
      | Raise st' \<Rightarrow>
          calculator_loop ctx options entries
            (onLog (Failed (formatRecordLabel (snd e) (fst e))) st')
      | Continue st' \<Rightarrow> calculator_loop ctx options entries st'
      | Ok u st' \<Rightarrow> calculator_loop ctx options entries st')"

definition calculator_runCalculation ::
  "PluginContext \<Rightarrow> CalculationOptions \<Rightarrow> Run option" where
  "calculator_runCalculation ctx options =
     (let recordIds = recordIds_of ctx options;
          st0 = \<lparr>tbl = table ctx, logs = [], toasts = 0, processed = 0\<rparr>
      in if recordIds = [] then Some (onLog NoRecords st0)
         else map_option (\<lambda>st. onLog (Summary (processed st) (length recordIds)) st)
                (calculator_loop ctx options (enumerate 0 recordIds)
                   (onLog (Starting (length recordIds)) st0)))"

section \<open>The packing cascade of src/unnamed/part_002\<close>

text \<open>The file declares this constant and does not use it.\<close>

definition LB_TO_KG :: number where
  "LB_TO_KG = Fin (4536 / 10000)"

definition computeInnerGrossWeightLb ::
  "number \<Rightarrow> number option \<Rightarrow> InnerMaterial \<Rightarrow> number option" where
  "computeInnerGrossWeightLb innerQ itemWt material =
     (if innerQ \<le> Fin 0 then None
      else if \<not> isPositive itemWt then None
      else case itemWt of
             None \<Rightarrow> None
           | Some w \<Rightarrow>
               let packagingWeight =
                     (if material = PolyBag then Fin 0 else INNER_BOX_PACKAGING_WEIGHT_G);
                   totalGrams = innerQ * w + packagingWeight
               in Some (totalGrams * GRAM_TO_POUND))"

text \<open>A write of \<open>v\<close> to the field of a key, when the field is configured.\<close>

definition write_if_configured :: "FieldIds \<Rightarrow> FieldKey \<Rightarrow> cell \<Rightarrow> updates" where
  "write_if_configured fids key v = (if fids key \<noteq> [] then [(fids key, v)] else [])"

definition INNER_FIELD_KEYS :: "FieldKey list" where
  "INNER_FIELD_KEYS = [InnerWidth, InnerDepth, InnerHeight, InnerWeight]"

definition clearInnerValues :: "FieldIds \<Rightarrow> string \<Rightarrow> Run \<Rightarrow> unit res" where
  "clearInnerValues fids recordId st =
     (let clears = concat (map (\<lambda>key. write_if_configured fids key Null) INNER_FIELD_KEYS)
      in if clears \<noteq> [] then Promise_all recordId clears st else Ok () st)"

definition write_dims_configured ::
  "FieldIds \<Rightarrow> FieldKey \<Rightarrow> FieldKey \<Rightarrow> FieldKey \<Rightarrow> ArrangementResult \<Rightarrow> updates" where
  "write_dims_configured fids kw kd kh arrangement =
     write_if_configured fids kw (Num (round_to (width arrangement) 3))
     @ write_if_configured fids kd (Num (round_to (depth arrangement) 3))
     @ write_if_configured fids kh (Num (round_to (height arrangement) 3))"

text \<open>
  The inner level. The writes are collected while the messages are logged and
  awaited together afterwards. The value is \<open>innerArrangement\<close>.
\<close>

definition part_002_inner ::
  "FieldIds \<Rightarrow> CalculationOptions \<Rightarrow> label \<Rightarrow> string
     \<Rightarrow> number \<times> number \<times> number \<Rightarrow> number option \<Rightarrow> number \<Rightarrow> number option
     \<Rightarrow> Run \<Rightarrow> ArrangementResult option res" where
  "part_002_inner fids options lbl recordId item itemWt innerQ existingInnerWeightLb st =
     (let effectiveInnerBuffer =
            (if innerMaterial options = PolyBag then Fin 0 else innerBuffer options);
          innerBufferInches = convertBufferToInches effectiveInnerBuffer (innerBufferUnit options)
      in if Fin 0 < innerQ then
           (case item of
              (iw, idp, ih) \<Rightarrow>
                (case computeBestArrangement innerQ
                        \<lparr>width = iw, depth = idp, height = ih\<rparr> innerBufferInches of
                   None \<Rightarrow> Hang
                 | Some arrangement \<Rightarrow>
                     let st1 = (case arrangement of
                                  None \<Rightarrow> onLog (NoInnerArrangement lbl) st
                                | Some a \<Rightarrow> st);
                         dimUpdates =
                           (case arrangement of
                              None \<Rightarrow> []
                            | Some a \<Rightarrow>
                                write_dims_configured fids InnerWidth InnerDepth InnerHeight a);
                         computedInnerWeight =
                           computeInnerGrossWeightLb innerQ itemWt (innerMaterial options);
                         shouldUpdate =
                           (case computedInnerWeight of
                              None \<Rightarrow> False
                            | Some c \<Rightarrow>
                                fids InnerWeight \<noteq> []
                                \<and> (\<not> isPositive existingInnerWeightLb
                                   \<or> Fin (1 / 1000)
                                      < \<bar>(case existingInnerWeightLb of None \<Rightarrow> Fin 0
                                          | Some e \<Rightarrow> e) - c\<bar>));
                         weightUpdates =
                           (case computedInnerWeight of
                              None \<Rightarrow> []
                            | Some c \<Rightarrow>
                                if shouldUpdate
                                then [(fids InnerWeight, Num (round_to c 3))] else []);
                         st2 =
                           (case computedInnerWeight of
                              None \<Rightarrow>
                                if \<not> isPositive existingInnerWeightLb
                                then onLog (InnerWeightMissing lbl) st1 else st1
                            | Some c \<Rightarrow>
                                if shouldUpdate then onLog (InnerWeightFilled lbl c) st1 else st1);
                         innerUpdates = dimUpdates @ weightUpdates
                     in bind_res
                          (if innerUpdates \<noteq> [] then Promise_all recordId innerUpdates st2
                           else Ok () st2)
                          (\<lambda>u st3.
                             Ok arrangement
                               (case arrangement of
                                  None \<Rightarrow> st3
                                | Some a \<Rightarrow>
                                    onLog (InnerUpdated lbl (width a) (depth a) (height a)) st3))))
         else
           bind_res (clearInnerValues fids recordId (onLog (NoInner lbl) st))
             (\<lambda>u st'. Ok None st'))"

text \<open>The master level. Its value is \<open>masterArrangement\<close>.\<close>

definition part_002_master ::
  "CalculationOptions \<Rightarrow> label
     \<Rightarrow> number \<times> number \<times> number \<Rightarrow> number \<Rightarrow> number
     \<Rightarrow> number option \<times> number option \<times> number option
     \<Rightarrow> ArrangementResult option
     \<Rightarrow> Run \<Rightarrow> ArrangementResult res" where
  "part_002_master options lbl item innerQ masterQ existing innerArrangement st =
     (let masterBufferInches =
            convertBufferToInches (masterBuffer options) (masterBufferUnit options);
          divisor = (if Fin 0 < innerQ then innerQ else Fin 1);
          ratio = masterQ / divisor
      in if \<not> Number_isFinite ratio \<or> ratio \<le> Fin 0
         then counted (onLog (RatioInvalid lbl masterQ innerQ) st)
         else
           (case item of
              (iw, idp, ih) \<Rightarrow>
                if Fin 0 < innerQ then
                  (let innersPerMaster = ratio
                   in if \<not> Number_isInteger innersPerMaster
                      then counted (onLog (NotDivisible lbl masterQ innerQ) st)
                      else master_of_inners lbl innersPerMaster innerArrangement existing
                             (Some iw, Some idp, Some ih) masterBufferInches st)
                else
                  solve_or_skip (NoMasterArrangement lbl) masterQ
                    \<lparr>width = iw, depth = idp, height = ih\<rparr> masterBufferInches st))"

text \<open>
  The net weight step: the write to the net-weight field and the message; the
  value is \<open>netWeightKg\<close>.
\<close>

definition part_002_net_weight ::
  "FieldIds \<Rightarrow> label \<Rightarrow> number option \<Rightarrow> number \<Rightarrow> Run
     \<Rightarrow> updates \<times> number option \<times> Run" where
  "part_002_net_weight fids lbl itemWt masterQ st =
     (if isPositive itemWt then
        (case itemWt of
           Some w \<Rightarrow>
             let netWeightKg = round_to ((w / Fin 1000) * masterQ) 3
             in (write_if_configured fids NetWeight (Num netWeightKg), Some netWeightKg, st)
         | None \<Rightarrow> ([], None, st))
      else
        (write_if_configured fids NetWeight Null, None, onLog (NetWeightCleared lbl) st))"

definition part_002_body ::
  "PluginContext \<Rightarrow> CalculationOptions \<Rightarrow> nat \<Rightarrow> string \<Rightarrow> Run \<Rightarrow> unit res" where
  "part_002_body ctx options index recordId st =
     (let lbl = formatRecordLabel recordId index; fids = fieldIds ctx
      in case getRecordById (tbl st) recordId of
           None \<Rightarrow> Raise st
         | Some cells \<Rightarrow>
             let itemWo = fetchValue fids cells ItemWidth;
                 itemDo = fetchValue fids cells ItemDepth;
                 itemHo = fetchValue fids cells ItemHeight;
                 itemWt = fetchValue fids cells ItemWeight;
                 innerQtyRaw = fetchValue fids cells InnerQty;
                 masterQtyRaw = fetchValue fids cells MasterQty
             in if \<not> isPositive itemWo \<or> \<not> isPositive itemDo \<or> \<not> isPositive itemHo
                then counted (onLog (IncompleteDims lbl) st)
                else if (case innerQtyRaw of None \<Rightarrow> False | Some v \<Rightarrow> \<not> Number_isInteger v)
                then counted (onLog (InnerQtyNotInteger lbl) st)
                else if (case masterQtyRaw of None \<Rightarrow> False | Some v \<Rightarrow> \<not> Number_isInteger v)
                then counted (onLog (MasterQtyNotInteger lbl) st)
                else
                  (case (itemWo, itemDo, itemHo) of
                     (Some iw, Some idp, Some ih) \<Rightarrow>
                       let innerQ = (case innerQtyRaw of None \<Rightarrow> Fin 0 | Some v \<Rightarrow> v);
                           masterQ = (case masterQtyRaw of None \<Rightarrow> Fin 0 | Some v \<Rightarrow> v);
                           existing = (fetchValue fids cells InnerWidth,
                                       fetchValue fids cells InnerDepth,
                                       fetchValue fids cells InnerHeight);
                           existingInnerWeightLb = fetchValue fids cells InnerWeight
                       in bind_res
                            (part_002_inner fids options lbl recordId (iw, idp, ih) itemWt innerQ
                               existingInnerWeightLb st)
                            (\<lambda>innerArrangement st1.
                               bind_res (master_gate lbl masterQ st1)
                                 (\<lambda>u st2.
                                    bind_res
                                      (part_002_master options lbl (iw, idp, ih) innerQ masterQ
                                         existing innerArrangement st2)
                                      (\<lambda>masterArrangement st3.
                                         case part_002_net_weight fids lbl itemWt masterQ st3 of
                                           (netUpdates, netWeightKg, st4) \<Rightarrow>
                                             let masterUpdates =
                                                   write_dims_configured fids MasterWidth
                                                     MasterDepth MasterHeight masterArrangement
                                                   @ netUpdates
                                             in bind_res
                                                  (if masterUpdates \<noteq> []
                                                   then Promise_all recordId masterUpdates st4
                                                   else Ok () st4)
                                                  (\<lambda>u st5.
                                                     let st6 =
                                                           onLog (MasterUpdated lbl
                                                                    (width masterArrangement)
                                                                    (depth masterArrangement)
                                                                    (height masterArrangement)) st5;
                                                         st7 =
                                                           (case netWeightKg of
                                                              None \<Rightarrow> st6
                                                            | Some n \<Rightarrow>
                                                                if fids NetWeight \<noteq> []
                                                                then onLog (NetWeightUpdated lbl n) st6
                                                                else onLog (NetWeightNoField lbl n) st6)
                                                     in counted st7))))
                   | _ \<Rightarrow> counted (onLog (IncompleteDims lbl) st)))"

fun part_002_loop ::
  "PluginContext \<Rightarrow> CalculationOptions \<Rightarrow> (nat \<times> string) list \<Rightarrow> Run \<Rightarrow> Run option" where
  "part_002_loop ctx options [] st = Some st"
| "part_002_loop ctx options (e # entries) st =
     (case part_002_body ctx options (fst e) (snd e) st of
        Hang \<Rightarrow> None
      | Raise st' \<Rightarrow>
          part_002_loop ctx options entries
            (onLog (Failed (formatRecordLabel (snd e) (fst e))) st')
      | Continue st' \<Rightarrow> part_002_loop ctx options entries st'
      | Ok u st' \<Rightarrow> part_002_loop ctx options entries st')"

definition part_002_runCalculation ::
  "PluginContext \<Rightarrow> CalculationOptions \<Rightarrow> Run option" where
  "part_002_runCalculation ctx options =
     (let recordIds = recordIds_of ctx options;
          st0 = \<lparr>tbl = table ctx, logs = [], toasts = 0, processed = 0\<rparr>
      in if recordIds = [] then Some (onLog NoRecords st0)
         else map_option (\<lambda>st. onLog (Summary (processed st) (length recordIds)) st)
                (part_002_loop ctx options (enumerate 0 recordIds)
                   (onLog (Starting (length recordIds)) st0)))"

section \<open>Bookkeeping of a run, and an example host\<close>

text \<open>The number of records logged as failed.\<close>

fun is_Failed :: "Msg \<Rightarrow> bool" where
  "is_Failed (Failed lbl) = True"
| "is_Failed m = False"

definition failures :: "Msg list \<Rightarrow> nat" where
  "failures ms = length (filter is_Failed ms)"

text \<open>The two counters of a run that the summary is about.\<close>

definition tally :: "Run \<Rightarrow> nat \<times> nat" where
  "tally st = (processed st, failures (logs st))"

text \<open>
  A piece of the loop body accounts for the record when it returns and either
  goes through or raises with both counters as they were, or counts the record
  once.
\<close>

definition accounted :: "nat \<times> nat \<Rightarrow> 'a res \<Rightarrow> bool" where
  "accounted s r =
     (case r of
        Ok x st' \<Rightarrow> tally st' = s
      | Continue st' \<Rightarrow> tally st' = (fst s + 1, snd s)
      | Raise st' \<Rightarrow> tally st' = s
      | Hang \<Rightarrow> False)"


text \<open>The cell of a field of a record after a run.\<close>

definition written :: "Run option \<Rightarrow> string \<Rightarrow> string \<Rightarrow> cell option" where
  "written run recordId fieldId =
     (case run of
        None \<Rightarrow> None
      | Some st \<Rightarrow> (case rows (tbl st) recordId of None \<Rightarrow> None | Some cells \<Rightarrow> cells fieldId))"

text \<open>
  An example host: every field is configured, the table holds the one record
  \<open>r1\<close>, no write is rejected, nothing is selected and the view shows \<open>r1\<close>.
\<close>

definition example_fieldIds :: FieldIds where
  "example_fieldIds key =
     (case key of
        ItemHeight \<Rightarrow> ''fldItemHeight'' | ItemWidth \<Rightarrow> ''fldItemWidth''
      | ItemDepth \<Rightarrow> ''fldItemDepth'' | ItemWeight \<Rightarrow> ''fldItemWeight''
      | InnerWidth \<Rightarrow> ''fldInnerWidth'' | InnerDepth \<Rightarrow> ''fldInnerDepth''
      | InnerHeight \<Rightarrow> ''fldInnerHeight'' | InnerWeight \<Rightarrow> ''fldInnerWeight''
      | InnerQty \<Rightarrow> ''fldInnerQty'' | MasterQty \<Rightarrow> ''fldMasterQty''
      | MasterHeight \<Rightarrow> ''fldMasterHeight'' | MasterWidth \<Rightarrow> ''fldMasterWidth''
      | MasterDepth \<Rightarrow> ''fldMasterDepth'' | GrossWeight \<Rightarrow> ''fldGrossWeight''
      | NetWeight \<Rightarrow> ''fldNetWeight'')"

text \<open>A unit of 1 by 1 by 1 inch with its weight in grams and the two quantities.\<close>

definition example_cells :: "number \<Rightarrow> number \<Rightarrow> number \<Rightarrow> (string \<rightharpoonup> cell)" where
  "example_cells itemWt innerQ masterQ =
     [''fldItemWidth'' \<mapsto> Num (Fin 1), ''fldItemDepth'' \<mapsto> Num (Fin 1),
      ''fldItemHeight'' \<mapsto> Num (Fin 1), ''fldItemWeight'' \<mapsto> Num itemWt,
      ''fldInnerQty'' \<mapsto> Num innerQ, ''fldMasterQty'' \<mapsto> Num masterQ]"

definition example_context :: "(string \<rightharpoonup> cell) \<Rightarrow> PluginContext" where
  "example_context cells =
     \<lparr>table = \<lparr>rows = [''r1'' \<mapsto> cells], rejects = (\<lambda>fieldId recordId. False)\<rparr>,
      view = \<lparr>selectedRecordIdList = [], visibleRecordIdList = [Some ''r1'']\<rparr>,
      fieldIds = example_fieldIds\<rparr>"

text \<open>Buffers in inches, no master buffer.\<close>

definition example_options :: "InnerMaterial \<Rightarrow> number \<Rightarrow> CalculationOptions" where
  "example_options material buffer =
     \<lparr>forceAll = False, innerBuffer = buffer, innerBufferUnit = inch,
      masterBuffer = Fin 0, masterBufferUnit = inch, innerMaterial = material\<rparr>"

text \<open>
  The same unit with no weight, no inner quantity, master quantity 1, and a net
  weight of 9 kg left in the table by an earlier run.
\<close>

definition example_cells_no_weight :: "string \<rightharpoonup> cell" where
  "example_cells_no_weight =
     [''fldItemWidth'' \<mapsto> Num (Fin 1), ''fldItemDepth'' \<mapsto> Num (Fin 1),
      ''fldItemHeight'' \<mapsto> Num (Fin 1), ''fldMasterQty'' \<mapsto> Num (Fin 1),
      ''fldNetWeight'' \<mapsto> Num (Fin 9)]"

text \<open>The state in which a run over the example host starts its first record.\<close>

definition example_start :: "(string \<rightharpoonup> cell) \<Rightarrow> Run" where
  "example_start cells =
     \<lparr>tbl = table (example_context cells), logs = [Starting 1], toasts = 0, processed = 0\<rparr>"


section \<open>The arrangement solver: the loops\<close>

lemma Fin_mod_nat:
  assumes "0 < b"
  shows "Fin (of_nat m) mod Fin (of_nat b) = Fin (of_nat (m mod b))"
proof -
  have fl: "\<lfloor>(of_nat m :: rat) / of_nat b\<rfloor> = int (m div b)"
    by (simp add: floor_divide_of_nat_eq)
  have nn: "\<not> (of_nat m :: rat) / of_nat b < 0"
    by (simp add: not_less)
  have "(of_nat m :: rat) = of_nat (b * (m div b) + m mod b)"
    by simp
  then have "(of_nat m :: rat) - of_nat b * of_nat (m div b) = of_nat (m mod b)"
    by (simp only: of_nat_add of_nat_mult)
  with assms fl nn show ?thesis
    by simp
qed

lemma Fin_div_nat:
  assumes "0 < b" and "m mod b = 0"
  shows "Fin (of_nat m) / Fin (of_nat b) = Fin (of_nat (m div b))"
proof -
  from assms(2) obtain k where k: "m = b * k"
    by (auto simp: mod_eq_0_iff_dvd)
  with assms(1) show ?thesis
    by simp
qed

lemma loop_b_closed:
  assumes "0 < b"
  shows "generateFactorTriples_b (Fin (of_nat a)) (Fin (of_nat m)) (Fin (of_nat b)) st
         = Some (foldl (step_b a m) st [b..<Suc m])"
  using assms
proof (induction "Suc m - b" arbitrary: b st)
  case 0
  then have "\<not> b \<le> m" by simp
  then show ?case
    by (subst generateFactorTriples_b.simps) simp
next
  case (Suc k)
  then have le: "b \<le> m" by simp
  have next_b: "Fin (of_nat b) + Fin 1 = Fin (of_nat (Suc b))"
    by (simp add: add.commute)
  have IH: "generateFactorTriples_b (Fin (of_nat a)) (Fin (of_nat m)) (Fin (of_nat (Suc b))) st'
         = Some (foldl (step_b a m) st' [Suc b..<Suc m])" for st'
    by (rule Suc.hyps(1)) (use Suc.hyps(2) in arith, simp)
  have upt: "[b..<Suc m] = b # [Suc b..<Suc m]"
    using le by (simp add: upt_conv_Cons del: upt_Suc)
  have "generateFactorTriples_b (Fin (of_nat a)) (Fin (of_nat m)) (Fin (of_nat b)) st
        = Some (foldl (step_b a m) (step_b a m st b) [Suc b..<Suc m])"
    using le Suc.prems
    by (subst generateFactorTriples_b.simps)
       (simp add: next_b IH Fin_mod_nat Fin_div_nat step_b_def tri_def
          del: of_nat_Suc upt_Suc modulo_number.simps divide_number.simps plus_number.simps)
  then show ?case
    by (simp only: upt foldl_Cons)
qed

lemma loop_a_closed:
  assumes "0 < a"
  shows "generateFactorTriples_a (Fin (of_nat n)) (Fin (of_nat a)) st
         = Some (foldl (step_a n) st [a..<Suc n])"
  using assms
proof (induction "Suc n - a" arbitrary: a st)
  case 0
  then have "\<not> a \<le> n" by simp
  then show ?case
    by (subst generateFactorTriples_a.simps) simp
next
  case (Suc k)
  then have le: "a \<le> n" by simp
  have next_a: "Fin (of_nat a) + Fin 1 = Fin (of_nat (Suc a))"
    by (simp add: add.commute)
  have IH: "generateFactorTriples_a (Fin (of_nat n)) (Fin (of_nat (Suc a))) st'
         = Some (foldl (step_a n) st' [Suc a..<Suc n])" for st'
    by (rule Suc.hyps(1)) (use Suc.hyps(2) in arith, simp)
  have upt: "[a..<Suc n] = a # [Suc a..<Suc n]"
    using le by (simp add: upt_conv_Cons del: upt_Suc)
  have inner: "generateFactorTriples_b (Fin (of_nat a)) (Fin (of_nat q)) (Fin 1) st
      = Some (foldl (step_b a q) st [1..<Suc q])" for q
    using loop_b_closed [of 1 a q st] by simp
  have "generateFactorTriples_a (Fin (of_nat n)) (Fin (of_nat a)) st
        = Some (foldl (step_a n) (step_a n st a) [Suc a..<Suc n])"
    using le Suc.prems
    by (subst generateFactorTriples_a.simps)
       (simp add: next_a IH Fin_mod_nat Fin_div_nat step_a_def inner
          del: of_nat_Suc upt_Suc modulo_number.simps divide_number.simps plus_number.simps)
  then show ?case
    by (simp only: upt foldl_Cons)
qed

lemma generateFactorTriples_Fin:
  "generateFactorTriples (Fin r) =
     Some (if \<lfloor>\<bar>r\<bar>\<rfloor> \<le> 0 then [] else factor_triples (nat \<lfloor>\<bar>r\<bar>\<rfloor>))"
proof (cases "\<lfloor>\<bar>r\<bar>\<rfloor> \<le> 0")
  case True
  then show ?thesis by (simp add: generateFactorTriples_def)
next
  case False
  then have "(of_int \<lfloor>\<bar>r\<bar>\<rfloor> :: rat) = of_nat (nat \<lfloor>\<bar>r\<bar>\<rfloor>)"
    by simp
  with False show ?thesis
    using loop_a_closed [of 1 "nat \<lfloor>\<bar>r\<bar>\<rfloor>" "({}, [])"]
    by (simp add: generateFactorTriples_def factor_triples_def Let_def)
qed

text \<open>A quantity NaN ends the loop at once; an infinite quantity never ends it.\<close>

lemma generateFactorTriples_NaN: "generateFactorTriples NaN = Some []"
  by (simp add: generateFactorTriples_def generateFactorTriples_a.simps [of NaN])

lemma loop_a_PosInf:
  assumes "generateFactorTriples_a absQty a st = Some y"
  shows "\<not> (absQty = PosInf \<and> Number_isFinite a)"
proof (rule generateFactorTriples_a.raw_induct
    [where P = "\<lambda>absQty a st y. \<not> (absQty = PosInf \<and> Number_isFinite a)", OF _ assms])
  fix f absQty a st y
  assume IH: "\<And>absQty a st y. f absQty a st = Some y
                \<Longrightarrow> \<not> (absQty = PosInf \<and> Number_isFinite a)"
    and body: "(if a \<le> absQty then
                 (if absQty mod a \<noteq> Fin 0 then f absQty (a + Fin 1) st
                  else Option.bind (generateFactorTriples_b a (absQty / a) (Fin 1) st)
                         (\<lambda>st'. f absQty (a + Fin 1) st'))
                else Some st) = Some y"
  show "\<not> (absQty = PosInf \<and> Number_isFinite a)"
  proof
    assume inf: "absQty = PosInf \<and> Number_isFinite a"
    then obtain x where a: "a = Fin x"
      by (cases a) simp_all
    from body inf a have "f PosInf (Fin (x + 1)) st = Some y"
      by simp
    from IH [OF this] show False by simp
  qed
qed

lemma generateFactorTriples_PosInf: "generateFactorTriples PosInf = None"
  using loop_a_PosInf [of PosInf "Fin 1" "({}, [])"]
  by (cases "generateFactorTriples_a PosInf (Fin 1) ({}, [])")
     (simp_all add: generateFactorTriples_def)

lemma generateFactorTriples_NegInf: "generateFactorTriples NegInf = None"
  using loop_a_PosInf [of PosInf "Fin 1" "({}, [])"]
  by (cases "generateFactorTriples_a PosInf (Fin 1) ({}, [])")
     (simp_all add: generateFactorTriples_def)

lemma set_push_unseen: "set (snd (push_unseen st p)) \<subseteq> insert p (set (snd st))"
  by (auto simp: push_unseen_def)

lemma set_foldl_push_unseen: "set (snd (foldl push_unseen st ps)) \<subseteq> set (snd st) \<union> set ps"
proof (induction ps arbitrary: st)
  case Nil
  show ?case by simp
next
  case (Cons p ps)
  show ?case
    using Cons [of "push_unseen st p"] set_push_unseen [of st p] by auto
qed

lemma set_uniquePermutations:
  "set (uniquePermutations (x, y, z))
     \<subseteq> {(x, y, z), (x, z, y), (y, x, z), (y, z, x), (z, x, y), (z, y, x)}"
  using set_foldl_push_unseen [of "({}, [])"
     "[(x, y, z), (x, z, y), (y, x, z), (y, z, x), (z, x, y), (z, y, x)]"]
  by (simp add: uniquePermutations_def)

lemma factorisation_perms:
  assumes "0 < a" "0 < b" "0 < c" "a * b * c = n"
    and "t \<in> set (uniquePermutations (tri a b c))"
  shows "factorisation n t"
proof -
  from assms(5) set_uniquePermutations [of "Fin (of_nat a)" "Fin (of_nat b)" "Fin (of_nat c)"]
  have "t \<in> {tri a b c, tri a c b, tri b a c, tri b c a, tri c a b, tri c b a}"
    by (auto simp: tri_def)
  with assms(1-4) show ?thesis
    unfolding factorisation_def tri_def
    by (elim insertE emptyE) (simp_all, (metis mult.commute mult.left_commute mult.assoc)+)
qed

lemma computeBestArrangement_Fin:
  "computeBestArrangement (Fin r) dims bufferInch =
     Some (if \<lfloor>\<bar>r\<bar>\<rfloor> \<le> 0 then None
           else if factor_triples (nat \<lfloor>\<bar>r\<bar>\<rfloor>) = [] then None
           else foldl (keep_best dims bufferInch) None (factor_triples (nat \<lfloor>\<bar>r\<bar>\<rfloor>)))"
  by (simp add: computeBestArrangement_def generateFactorTriples_Fin)

subsection \<open>Every triple of the enumeration is a factorisation\<close>

lemma step_b_factorisation:
  assumes "\<forall>t\<in>set (snd st). factorisation n t" and "0 < a" and "0 < b" and "a * m = n" and "0 < n"
  shows "\<forall>t\<in>set (snd (step_b a m st b)). factorisation n t"
proof (cases "m mod b = 0")
  case False
  with assms(1) show ?thesis by (simp add: step_b_def)
next
  case True
  then have m: "b * (m div b) = m" by auto
  with assms have c: "0 < m div b"
    by (metis mult_is_0 neq0_conv)
  have prod: "a * b * (m div b) = n"
    using m assms(4) by (simp add: mult.assoc)
  have "factorisation n t" if "t \<in> set (uniquePermutations (tri a b (m div b)))" for t
    using factorisation_perms [OF assms(2,3) c prod that] .
  with assms(1) True show ?thesis
    using set_foldl_push_unseen [of st "uniquePermutations (tri a b (m div b))"]
    by (auto simp: step_b_def)
qed

lemma foldl_step_b_factorisation:
  assumes "\<forall>t\<in>set (snd st). factorisation n t" and "0 < a" and "a * m = n" and "0 < n"
    and "\<forall>b\<in>set bs. 0 < b"
  shows "\<forall>t\<in>set (snd (foldl (step_b a m) st bs)). factorisation n t"
  using assms(1,5)
proof (induction bs arbitrary: st)
  case Nil
  then show ?case by simp
next
  case (Cons b bs)
  have "\<forall>t\<in>set (snd (step_b a m st b)). factorisation n t"
    using step_b_factorisation [OF Cons.prems(1) assms(2) _ assms(3,4)] Cons.prems(2) by auto
  from Cons.IH [OF this] Cons.prems(2) show ?case by simp
qed

lemma step_a_factorisation:
  assumes "\<forall>t\<in>set (snd st). factorisation n t" and "0 < a" and "0 < n"
  shows "\<forall>t\<in>set (snd (step_a n st a)). factorisation n t"
proof (cases "n mod a = 0")
  case False
  with assms(1) show ?thesis by (simp add: step_a_def)
next
  case True
  then have "a * (n div a) = n" by auto
  from foldl_step_b_factorisation [OF assms(1,2) this assms(3), of "[1..<Suc (n div a)]"] True
  show ?thesis
    by (simp add: step_a_def del: upt_Suc)
qed

lemma foldl_step_a_factorisation:
  assumes "\<forall>t\<in>set (snd st). factorisation n t" and "0 < n" and "\<forall>a\<in>set as. 0 < a"
  shows "\<forall>t\<in>set (snd (foldl (step_a n) st as)). factorisation n t"
  using assms(1,3)
proof (induction as arbitrary: st)
  case Nil
  then show ?case by simp
next
  case (Cons a as)
  have "\<forall>t\<in>set (snd (step_a n st a)). factorisation n t"
    using step_a_factorisation [OF Cons.prems(1) _ assms(2)] Cons.prems(2) by auto
  from Cons.IH [OF this] Cons.prems(2) show ?case by simp
qed

lemma factor_triples_factorisation:
  assumes "0 < n" and "t \<in> set (factor_triples n)"
  shows "factorisation n t"
  using foldl_step_a_factorisation [of "({}, [])" n "[1..<Suc n]"] assms
  by (simp add: factor_triples_def del: upt_Suc)

subsection \<open>The enumeration is complete and has no duplicates\<close>

text \<open>
  With the soundness above: for a positive integer \<open>n\<close> the triples of
  \<open>generateFactorTriples(n)\<close> are exactly the ordered triples of positive integers
  with product \<open>n\<close>, each of them once.
\<close>

lemma tidy_push_unseen:
  assumes "tidy st"
  shows "tidy (push_unseen st p)"
    and "set (snd (push_unseen st p)) = insert p (set (snd st))"
  using assms by (auto simp: tidy_def push_unseen_def)

lemma tidy_foldl_push_unseen:
  assumes "tidy st"
  shows "tidy (foldl push_unseen st ps) \<and> set (snd (foldl push_unseen st ps)) = set (snd st) \<union> set ps"
  using assms
proof (induction ps arbitrary: st)
  case Nil
  then show ?case by simp
next
  case (Cons p ps)
  from Cons.IH [OF tidy_push_unseen(1) [OF Cons.prems]] tidy_push_unseen(2) [OF Cons.prems]
  show ?case by auto
qed

lemma uniquePermutations_self: "t \<in> set (uniquePermutations t)"
proof -
  obtain x y z where t: "t = (x, y, z)" by (cases t) auto
  have "tidy ({}, [])" by (simp add: tidy_def)
  from tidy_foldl_push_unseen [OF this,
      of "[(x, y, z), (x, z, y), (y, x, z), (y, z, x), (z, x, y), (z, y, x)]"]
  show ?thesis by (simp add: uniquePermutations_def t)
qed

lemma tidy_step_b:
  assumes "tidy st"
  shows "tidy (step_b a m st b)"
    and "set (snd st) \<subseteq> set (snd (step_b a m st b))"
    and "m mod b = 0 \<Longrightarrow> tri a b (m div b) \<in> set (snd (step_b a m st b))"
  using tidy_foldl_push_unseen [OF assms, of "uniquePermutations (tri a b (m div b))"]
    assms uniquePermutations_self [of "tri a b (m div b)"]
  by (auto simp: step_b_def)

lemma tidy_foldl_step_b:
  assumes "tidy st"
  shows "tidy (foldl (step_b a m) st bs)
       \<and> set (snd st) \<subseteq> set (snd (foldl (step_b a m) st bs))
       \<and> (\<forall>b\<in>set bs. m mod b = 0 \<longrightarrow> tri a b (m div b) \<in> set (snd (foldl (step_b a m) st bs)))"
  using assms
proof (induction bs arbitrary: st)
  case Nil
  then show ?case by simp
next
  case (Cons b bs)
  from Cons.IH [OF tidy_step_b(1) [OF Cons.prems, where a = a and m = m and b = b]]
    tidy_step_b(2,3) [OF Cons.prems, where a = a and m = m and b = b]
  show ?case by auto
qed

lemma tidy_step_a:
  assumes "tidy st"
  shows "tidy (step_a n st a)"
    and "set (snd st) \<subseteq> set (snd (step_a n st a))"
    and "n mod a = 0 \<Longrightarrow> 0 < b \<Longrightarrow> b \<le> n div a \<Longrightarrow> (n div a) mod b = 0
           \<Longrightarrow> tri a b ((n div a) div b) \<in> set (snd (step_a n st a))"
  using tidy_foldl_step_b [OF assms, where a = a and m = "n div a" and bs = "[1..<Suc (n div a)]"]
    assms
  by (auto simp: step_a_def simp del: upt_Suc)

lemma tidy_foldl_step_a:
  assumes "tidy st"
  shows "tidy (foldl (step_a n) st as)
       \<and> set (snd st) \<subseteq> set (snd (foldl (step_a n) st as))
       \<and> (\<forall>a\<in>set as. \<forall>b. n mod a = 0 \<and> 0 < b \<and> b \<le> n div a \<and> (n div a) mod b = 0
              \<longrightarrow> tri a b ((n div a) div b) \<in> set (snd (foldl (step_a n) st as)))"
  using assms
proof (induction as arbitrary: st)
  case Nil
  then show ?case by simp
next
  case (Cons a as)
  from Cons.IH [OF tidy_step_a(1) [OF Cons.prems, where n = n and a = a]]
    tidy_step_a(2) [OF Cons.prems, where n = n and a = a]
    tidy_step_a(3) [OF Cons.prems, where n = n and a = a]
  show ?case by auto
qed

lemma factor_triples_distinct: "distinct (factor_triples n)"
proof -
  have "tidy ({}, [])"
    by (simp add: tidy_def)
  from tidy_foldl_step_a [OF this, where n = n and as = "[1..<Suc n]"]
  show ?thesis
    by (simp add: factor_triples_def tidy_def del: upt_Suc)
qed

lemma factor_triples_complete:
  assumes "0 < a" "0 < b" "0 < c"
  shows "tri a b c \<in> set (factor_triples (a * b * c))"
proof -
  let ?n = "a * b * c"
  have n: "?n mod a = 0" "?n div a = b * c"
    using assms(1) by (simp_all add: mult.assoc)
  have b: "(b * c) mod b = 0" "(b * c) div b = c" "b \<le> b * c"
    using assms(2,3) by simp_all
  have a: "a \<in> set [1..<Suc ?n]"
  proof -
    have "1 \<le> b * c" using assms(2,3) by (simp add: Suc_leI)
    then have "a * 1 \<le> a * (b * c)" by (rule mult_le_mono2)
    then have "a \<le> ?n" by (simp add: mult.assoc)
    then have "a < Suc ?n" by (rule le_imp_less_Suc)
    moreover have "1 \<le> a" using assms(1) by (simp add: Suc_leI)
    ultimately show ?thesis by (simp only: set_upt atLeastLessThan_iff)
  qed
  have "tidy ({}, [])"
    by (simp add: tidy_def)
  from tidy_foldl_step_a [OF this, where n = ?n and as = "[1..<Suc ?n]"]
  have "\<forall>a'\<in>set [1..<Suc ?n]. \<forall>b'.
          ?n mod a' = 0 \<and> 0 < b' \<and> b' \<le> ?n div a' \<and> (?n div a') mod b' = 0
            \<longrightarrow> tri a' b' ((?n div a') div b') \<in> set (factor_triples ?n)"
    unfolding factor_triples_def by (elim conjE)
  from bspec [OF this a, THEN spec, of b] n b assms(2) show ?thesis
    by simp
qed

lemma factor_triples_exact:
  assumes "0 < n"
  shows "set (factor_triples n) = {t. factorisation n t}"
proof (intro set_eqI iffI)
  fix t
  assume "t \<in> set (factor_triples n)"
  with assms show "t \<in> {t. factorisation n t}"
    by (simp add: factor_triples_factorisation)
next
  fix t
  assume "t \<in> {t. factorisation n t}"
  then obtain a b c where "t = tri a b c" "0 < a" "0 < b" "0 < c" "a * b * c = n"
    by (auto simp: factorisation_def tri_def)
  with factor_triples_complete [of a b c] show "t \<in> set (factor_triples n)"
    by simp
qed

subsection \<open>The selection loop keeps the first minimum\<close>

lemma candidate_counts: "candidate dims bufferInch t = Some c \<Longrightarrow> counts c = t"
  by (auto simp: candidate_def Let_def split: prod.splits if_splits)

lemma keep_best_from:
  assumes "foldl (keep_best dims bufferInch) best ts = Some r"
  shows "best = Some r \<or> (\<exists>t\<in>set ts. candidate dims bufferInch t = Some r)"
  using assms
proof (induction ts arbitrary: best)
  case Nil
  then show ?case by simp
next
  case (Cons t ts)
  from Cons.IH [OF Cons.prems [simplified]]
  show ?case
    by (auto simp: keep_best_def split: option.splits if_splits)
qed










section \<open>The packing cascade: the counters\<close>

subsection \<open>The quantities of the cascade are finite\<close>







subsection \<open>Every piece of the loop body accounts for the record\<close>





lemma accounted_Raise: "tally st = s \<Longrightarrow> accounted s (Raise st)"
  by (simp add: accounted_def)







lemma div_finite:
  assumes "Number_isFinite a" and "Number_isFinite b" and "Fin 0 < b"
  shows "Number_isFinite (a / b)"
  using assms by (cases a; cases b) auto














subsection \<open>The same for the unnamed file\<close>









section \<open>The arrangement solver: claims\<close>

subsection \<open>Evaluations\<close>

lemma select_8_2_1_1:
  "(if factor_triples 8 = [] then None
    else foldl (keep_best \<lparr>width = Fin 2, depth = Fin 1, height = Fin 1\<rparr> (Fin 0)) None
           (factor_triples 8))
   = Some \<lparr>width = Fin 2, depth = Fin 1, height = Fin 8, cubeFeet = Fin (1 / 108),
            counts = (Fin 1, Fin 1, Fin 8)\<rparr>"
  by code_simp

lemma solve_8_2_1_1:
  "computeBestArrangement (Fin 8) \<lparr>width = Fin 2, depth = Fin 1, height = Fin 1\<rparr> (Fin 0)
   = Some (Some \<lparr>width = Fin 2, depth = Fin 1, height = Fin 8, cubeFeet = Fin (16 / 1728),
                  counts = (Fin 1, Fin 1, Fin 8)\<rparr>)"
  using select_8_2_1_1 by (simp add: computeBestArrangement_Fin split: if_splits)

lemma ties_8_2_1_1:
  "list_all (\<lambda>c. cubeFeet c = Fin (16 / 1728))
     (candidates \<lparr>width = Fin 2, depth = Fin 1, height = Fin 1\<rparr> (Fin 0) (factor_triples 8))"
  by code_simp

lemma select_12_cube:
  "(if factor_triples 12 = [] then None
    else foldl (keep_best \<lparr>width = Fin 1, depth = Fin 1, height = Fin 1\<rparr> (Fin 1)) None
           (factor_triples 12))
   = Some \<lparr>width = Fin 3, depth = Fin 3, height = Fin 4, cubeFeet = Fin (1 / 48),
            counts = (Fin 2, Fin 2, Fin 3)\<rparr>"
  by code_simp

lemma solve_12_cube:
  "computeBestArrangement (Fin 12) \<lparr>width = Fin 1, depth = Fin 1, height = Fin 1\<rparr> (Fin 1)
   = Some (Some \<lparr>width = Fin 3, depth = Fin 3, height = Fin 4, cubeFeet = Fin (1 / 48),
                  counts = (Fin 2, Fin 2, Fin 3)\<rparr>)"
  using select_12_cube by (simp add: computeBestArrangement_Fin split: if_splits)

lemma solve_minus_1:
  "computeBestArrangement (Fin (- 1)) \<lparr>width = Fin 1, depth = Fin 1, height = Fin 1\<rparr> (Fin 0)
   = Some (Some \<lparr>width = Fin 1, depth = Fin 1, height = Fin 1, cubeFeet = Fin (1 / 1728),
                  counts = (Fin 1, Fin 1, Fin 1)\<rparr>)"
  by (simp add: computeBestArrangement_Fin factor_triples_def step_a_def step_b_def tri_def
      uniquePermutations_def push_unseen_def keep_best_def candidate_def Let_def)

subsection \<open>C1\<close>

text \<open>
  Claim C1. For every positive integer quantity \<open>q\<close>, all unit dimensions and every
  buffer, the call \<open>computeBestArrangement(q, dims, buffer)\<close> returns, and when it
  returns a result (not \<open>null\<close>) the counts of the result are three positive
  integers whose product is \<open>q\<close>.
\<close>

theorem C1_counts_product:
  assumes "0 < q"
  shows "computeBestArrangement (Fin (of_nat q)) dims bufferInch \<noteq> None \<and>
         (\<forall>r. computeBestArrangement (Fin (of_nat q)) dims bufferInch = Some (Some r) \<longrightarrow>
            (\<exists>a b c. counts r = (Fin (of_nat a), Fin (of_nat b), Fin (of_nat c))
               \<and> 0 < a \<and> 0 < b \<and> 0 < c \<and> a * b * c = q))"
proof (intro conjI allI impI)
  show "computeBestArrangement (Fin (of_nat q)) dims bufferInch \<noteq> None"
    by (simp add: computeBestArrangement_Fin)
next
  fix r
  assume "computeBestArrangement (Fin (of_nat q)) dims bufferInch = Some (Some r)"
  then have "foldl (keep_best dims bufferInch) None (factor_triples q) = Some r"
    by (simp add: computeBestArrangement_Fin split: if_splits)
  from keep_best_from [OF this] obtain t where "t \<in> set (factor_triples q)"
    and "candidate dims bufferInch t = Some r"
    by auto
  with factor_triples_factorisation [OF assms] candidate_counts
  have "factorisation q (counts r)" by metis
  then show "\<exists>a b c. counts r = (Fin (of_nat a), Fin (of_nat b), Fin (of_nat c))
               \<and> 0 < a \<and> 0 < b \<and> 0 < c \<and> a * b * c = q"
    by (simp add: factorisation_def)
qed

theorem C1_counts_product_witness:
  "0 < (12 :: nat)
   \<and> computeBestArrangement (Fin (of_nat 12))
        \<lparr>width = Fin 1, depth = Fin 1, height = Fin 1\<rparr> (Fin 1)
      = Some (Some \<lparr>width = Fin 3, depth = Fin 3, height = Fin 4, cubeFeet = Fin (1 / 48),
                     counts = (Fin 2, Fin 2, Fin 3)\<rparr>)
   \<and> (\<exists>a b c. (Fin 2, Fin 2, Fin 3) = (Fin (of_nat a), Fin (of_nat b), Fin (of_nat c))
         \<and> 0 < a \<and> 0 < b \<and> 0 < c \<and> a * b * c = (12 :: nat))"
proof -
  have pos: "0 < (12 :: nat)" by simp
  have run: "computeBestArrangement (Fin (of_nat 12))
        \<lparr>width = Fin 1, depth = Fin 1, height = Fin 1\<rparr> (Fin 1)
      = Some (Some \<lparr>width = Fin 3, depth = Fin 3, height = Fin 4, cubeFeet = Fin (1 / 48),
                     counts = (Fin 2, Fin 2, Fin 3)\<rparr>)"
    using solve_12_cube by simp
  from C1_counts_product [OF pos, THEN conjunct2, rule_format, OF run]
  show ?thesis using pos run by simp
qed

subsection \<open>C2\<close>



subsection \<open>C3\<close>

text \<open>
  Claim C3, as stated: for every quantity \<open>q \<le> 0\<close>, in particular for every
  negative quantity, the solver returns none. It fails at \<open>q = -1\<close>: the sign of
  the quantity is dropped by \<open>Math.abs\<close>, and the solver returns the arrangement
  of one unit.
\<close>

theorem C3_negative_quantity_counterexample:
  "Fin (- 1) \<le> Fin 0
   \<and> computeBestArrangement (Fin (- 1)) \<lparr>width = Fin 1, depth = Fin 1, height = Fin 1\<rparr> (Fin 0)
     = Some (Some \<lparr>width = Fin 1, depth = Fin 1, height = Fin 1, cubeFeet = Fin (1 / 1728),
                    counts = (Fin 1, Fin 1, Fin 1)\<rparr>)"
  using solve_minus_1 by simp

text \<open>
  Claim C3, amended. For every finite quantity \<open>q\<close> that truncates to zero
  (\<open>-1 < q < 1\<close>, in particular \<open>q = 0\<close>) the solver returns none, for all unit
  dimensions and every buffer. The sign of a quantity is ignored: the solver
  returns for \<open>-q\<close> what it returns for \<open>q\<close>, so a negative quantity \<open>q \<le> -1\<close> is
  solved as \<open>\<bar>q\<bar>\<close>.
\<close>

theorem C3_zero_quantity:
  "(\<bar>q\<bar> < 1 \<longrightarrow> computeBestArrangement (Fin q) dims bufferInch = Some None)
   \<and> computeBestArrangement (Fin (- q)) dims bufferInch
       = computeBestArrangement (Fin q) dims bufferInch"
proof -
  have "\<lfloor>\<bar>q\<bar>\<rfloor> \<le> 0" if "\<bar>q\<bar> < 1"
    using that by (simp add: floor_le_iff)
  then show ?thesis
    by (simp add: computeBestArrangement_Fin)
qed

theorem C3_zero_quantity_witness:
  "\<bar>- 1 / 2 :: rat\<bar> < 1
   \<and> computeBestArrangement (Fin (- 1 / 2)) \<lparr>width = Fin 1, depth = Fin 1, height = Fin 1\<rparr> (Fin 0)
       = Some None
   \<and> computeBestArrangement (Fin (- (- 1 / 2))) \<lparr>width = Fin 1, depth = Fin 1, height = Fin 1\<rparr> (Fin 0)
       = Some None"
  using C3_zero_quantity [of "- 1 / 2" "\<lparr>width = Fin 1, depth = Fin 1, height = Fin 1\<rparr>" "Fin 0"]
  by simp

subsection \<open>C4\<close>

text \<open>
  Claim C4, as stated: for quantity 8, unit dimensions \<open>{2, 1, 1}\<close> and buffer 0 the
  solver returns the counts \<open>(2, 2, 2)\<close>. It does not.
\<close>

theorem C4_counts_counterexample:
  "map_option (map_option counts)
     (computeBestArrangement (Fin 8) \<lparr>width = Fin 2, depth = Fin 1, height = Fin 1\<rparr> (Fin 0))
   \<noteq> Some (Some (Fin 2, Fin 2, Fin 2))"
  using solve_8_2_1_1 by simp

text \<open>
  Claim C4, amended. For quantity 8, unit dimensions \<open>{2, 1, 1}\<close> and buffer 0 every
  candidate of the enumeration has the volume \<open>16/1728\<close> cubic feet (with no
  buffer the volume does not depend on the counts), and the solver returns the
  first one: counts \<open>(1, 1, 8)\<close>, outer dimensions \<open>(2, 1, 8)\<close>, volume \<open>16/1728\<close>.
\<close>

theorem C4_first_of_ties:
  "computeBestArrangement (Fin 8) \<lparr>width = Fin 2, depth = Fin 1, height = Fin 1\<rparr> (Fin 0)
     = Some (Some \<lparr>width = Fin 2, depth = Fin 1, height = Fin 8, cubeFeet = Fin (16 / 1728),
                    counts = (Fin 1, Fin 1, Fin 8)\<rparr>)
   \<and> list_all (\<lambda>c. cubeFeet c = Fin (16 / 1728))
       (candidates \<lparr>width = Fin 2, depth = Fin 1, height = Fin 1\<rparr> (Fin 0) (factor_triples 8))
   \<and> generateFactorTriples (Fin 8) = Some (factor_triples 8)"
  using solve_8_2_1_1 ties_8_2_1_1 by (simp add: generateFactorTriples_Fin)

section \<open>Rounding and extraction: claims\<close>



lemma dropWhile_all: "\<forall>c\<in>set s. P c \<Longrightarrow> dropWhile P s = []"
  by (induction s) auto

subsection \<open>C7\<close>




subsection \<open>C10\<close>

text \<open>
  Claim C10. For the empty string and for every string of white space only,
  \<open>extractNumber\<close> returns the number 0, not \<open>null\<close>; so a cell that holds such a
  string is fetched by the cascade (\<open>fetchValue\<close>, for a configured field) as the
  present quantity 0 and not as an absent field.
\<close>

theorem C10_blank_string_is_zero:
  assumes "\<forall>c\<in>set s. isStrWhiteSpaceChar c"
  shows "StringToNumber s = Fin 0 \<and> extractNumber (Str s) = Some (Fin 0)
       \<and> (fids key \<noteq> [] \<and> cells (fids key) = Some (Str s)
            \<longrightarrow> fetchValue fids cells key = Some (Fin 0))"
proof -
  have "trim_ws s = []"
    using assms by (simp add: trim_ws_def dropWhile_all)
  then have "StringToNumber s = Fin 0"
    by (simp add: StringToNumber_def)
  then show ?thesis
    by (simp add: fetchValue_def)
qed

theorem C10_blank_string_is_zero_witness:
  "list_all isStrWhiteSpaceChar [32, 9, 160, 12288]
   \<and> extractNumber (Str [32, 9, 160, 12288]) = Some (Fin 0)
   \<and> extractNumber (Str []) = Some (Fin 0)
   \<and> fetchValue (\<lambda>k. ''f'') [''f'' \<mapsto> Str []] InnerQty = Some (Fin 0)"
proof -
  have ws: "\<forall>c\<in>set [32, 9, 160, 12288]. isStrWhiteSpaceChar c"
    by (simp add: isStrWhiteSpaceChar_def)
  have none: "\<forall>c\<in>set []. isStrWhiteSpaceChar c"
    by simp
  from C10_blank_string_is_zero [OF ws, of "\<lambda>k. ''f''" InnerQty "[''f'' \<mapsto> Str []]"]
    C10_blank_string_is_zero [OF none, of "\<lambda>k. ''f''" InnerQty "[''f'' \<mapsto> Str []]"] ws
  show ?thesis
    by (simp add: list_all_iff)
qed

section \<open>The packing cascade: claims\<close>

subsection \<open>What the unnamed file does for the net weight, the poly bag and the packaging\<close>

lemma part_002_inner_polybag:
  assumes "innerMaterial options = PolyBag"
  shows "part_002_inner fids (options\<lparr>innerBuffer := b\<rparr>) lbl recordId item itemWt innerQ ew st
       = part_002_inner fids options lbl recordId item itemWt innerQ ew st"
proof -
  have "innerMaterial (options\<lparr>innerBuffer := b\<rparr>) = PolyBag"
    using assms by simp
  moreover have "innerBufferUnit (options\<lparr>innerBuffer := b\<rparr>) = innerBufferUnit options"
    by simp
  ultimately show ?thesis
    unfolding part_002_inner_def
    by (simp only: assms if_True refl)
qed

lemma part_002_master_innerBuffer:
  "part_002_master (options\<lparr>innerBuffer := b\<rparr>) lbl item innerQ masterQ existing ia st
   = part_002_master options lbl item innerQ masterQ existing ia st"
  by (simp add: part_002_master_def)

lemma part_002_body_polybag:
  assumes "innerMaterial options = PolyBag"
  shows "part_002_body ctx (options\<lparr>innerBuffer := b\<rparr>) index recordId st
       = part_002_body ctx options index recordId st"
  unfolding part_002_body_def
  by (simp only: part_002_inner_polybag [OF assms] part_002_master_innerBuffer)

lemma part_002_loop_polybag:
  assumes "innerMaterial options = PolyBag"
  shows "part_002_loop ctx (options\<lparr>innerBuffer := b\<rparr>) entries st
       = part_002_loop ctx options entries st"
proof (induction entries arbitrary: st)
  case Nil
  show ?case by simp
next
  case (Cons e entries)
  show ?case
    by (cases "part_002_body ctx options (fst e) (snd e) st")
       (simp_all add: part_002_body_polybag [OF assms] Cons.IH)
qed

lemma part_002_polybag_ignores_buffer:
  assumes "innerMaterial options = PolyBag"
  shows "part_002_runCalculation ctx (options\<lparr>innerBuffer := b\<rparr>)
       = part_002_runCalculation ctx options"
proof -
  have ids: "recordIds_of ctx (options\<lparr>innerBuffer := b\<rparr>) = recordIds_of ctx options"
    by (simp add: recordIds_of_def)
  show ?thesis
    unfolding part_002_runCalculation_def ids part_002_loop_polybag [OF assms]
    by (rule refl)
qed

lemma packaging_mass:
  assumes "Fin 0 < innerQ" and "isPositive (Some w)"
  shows "computeInnerGrossWeightLb innerQ (Some w) PolyBag = Some ((innerQ * w + Fin 0) * GRAM_TO_POUND)"
    and "computeInnerGrossWeightLb innerQ (Some w) Box = Some ((innerQ * w + Fin 100) * GRAM_TO_POUND)"
    and "computePackagingWeightLb innerQ (Some w) PolyBag = Some ((innerQ * w + Fin 0) * GRAM_TO_POUND)"
    and "computePackagingWeightLb innerQ (Some w) Box = Some ((innerQ * w + Fin 100) * GRAM_TO_POUND)"
proof -
  from assms(1) have "\<not> innerQ \<le> Fin 0"
    by (cases innerQ) auto
  with assms(2) show
    "computeInnerGrossWeightLb innerQ (Some w) PolyBag = Some ((innerQ * w + Fin 0) * GRAM_TO_POUND)"
    "computeInnerGrossWeightLb innerQ (Some w) Box = Some ((innerQ * w + Fin 100) * GRAM_TO_POUND)"
    "computePackagingWeightLb innerQ (Some w) PolyBag = Some ((innerQ * w + Fin 0) * GRAM_TO_POUND)"
    "computePackagingWeightLb innerQ (Some w) Box = Some ((innerQ * w + Fin 100) * GRAM_TO_POUND)"
    by (simp_all add: computeInnerGrossWeightLb_def computePackagingWeightLb_def isPositive_def
        INNER_BOX_PACKAGING_WEIGHT_G_def)
qed

lemma part_002_net_weight_positive:
  assumes "isPositive (Some w)"
  shows "part_002_net_weight fids lbl (Some w) masterQ st =
           (write_if_configured fids NetWeight (Num (round_to ((w / Fin 1000) * masterQ) 3)),
            Some (round_to ((w / Fin 1000) * masterQ) 3), st)"
  using assms by (simp add: part_002_net_weight_def Let_def)

lemma part_002_net_weight_missing:
  assumes "\<not> isPositive itemWt"
  shows "part_002_net_weight fids lbl itemWt masterQ st =
           (write_if_configured fids NetWeight Null, None, onLog (NetWeightCleared lbl) st)"
  using assms by (simp add: part_002_net_weight_def)

subsection \<open>C5\<close>

text \<open>
  Claim C5: for every record that reaches the net-weight step, with or without an
  inner level, a positive unit weight gives the net weight
  \<open>(unitWeightGrams / 1000) * masterQty\<close> rounded to 3 digits, and an absent or
  non-positive unit weight clears the field and logs a message. The unnamed file
  does so (\<open>part_002_net_weight_positive\<close>, \<open>part_002_net_weight_missing\<close>: the step
  is the same with and without an inner level). src/core/calculator.ts does not.
  With an inner level it derives the net weight from the gross weight of the
  inner carton: for one unit of 50 g per inner box and one inner box per master
  carton it writes 0.15 kg where the claim says 0.05 kg. With no unit weight it
  neither clears the field nor logs a message: a net weight of 9 kg in the table
  stays, where the unnamed file writes \<open>null\<close> and logs.
\<close>

theorem C5_calculator_net_weight:
  "written (calculator_runCalculation (example_context (example_cells (Fin 50) (Fin 1) (Fin 1)))
             (example_options Box (Fin 0))) ''r1'' ''fldNetWeight''
     = Some (Num (Fin (15 / 100)))
   \<and> round_to ((Fin 50 / Fin 1000) * Fin 1) 3 = Fin (5 / 100)
   \<and> fst (part_002_net_weight example_fieldIds (1, ''r1'') (Some (Fin 50)) (Fin 1)
            (example_start (example_cells (Fin 50) (Fin 1) (Fin 1))))
     = [(''fldNetWeight'', Num (Fin (5 / 100)))]
   \<and> written (calculator_runCalculation (example_context example_cells_no_weight)
               (example_options Box (Fin 0))) ''r1'' ''fldNetWeight''
     = Some (Num (Fin 9))
   \<and> map_option logs (calculator_runCalculation (example_context example_cells_no_weight)
                         (example_options Box (Fin 0)))
     = Some [Starting 1, NoInner (1, ''r1''), MasterUpdated (1, ''r1'') (Fin 1) (Fin 1) (Fin 1),
             Summary 1 1]
   \<and> fst (part_002_net_weight example_fieldIds (1, ''r1'') None (Fin 1)
            (example_start example_cells_no_weight))
     = [(''fldNetWeight'', Null)]"
  by code_simp

subsection \<open>C6\<close>

text \<open>
  Claim C6: with the material poly bag the inner buffer handed to the solver is 0
  whatever the configured inner buffer, and the packaging mass is 0 g (100 g for
  a box). The unnamed file does so (\<open>part_002_polybag_ignores_buffer\<close>,
  \<open>packaging_mass\<close>). src/core/calculator.ts adds no packaging mass either, but
  hands the configured buffer to the solver: for one unit of 1 by 1 by 1 inch
  per poly bag and a configured inner buffer of 1 inch it writes the inner width
  2, the unnamed file writes 1.
\<close>

theorem C6_calculator_polybag_buffer:
  "written (calculator_runCalculation (example_context (example_cells (Fin 50) (Fin 1) (Fin 0)))
             (example_options PolyBag (Fin 1))) ''r1'' ''fldInnerWidth''
     = Some (Num (Fin 2))
   \<and> written (part_002_runCalculation (example_context (example_cells (Fin 50) (Fin 1) (Fin 0)))
               (example_options PolyBag (Fin 1))) ''r1'' ''fldInnerWidth''
     = Some (Num (Fin 1))"
  by code_simp

subsection \<open>C8\<close>


text \<open>
  src/core/calculator.ts has no such check at all: it truncates the quantity, here
  1.5 to 1, and computes the inner carton.
\<close>

lemma calculator_truncates_quantity:
  "map_option logs
     (calculator_runCalculation (example_context (example_cells (Fin 50) (Fin (3 / 2)) (Fin 0)))
        (example_options Box (Fin 0)))
   = Some [Starting 1, InnerUpdated (1, ''r1'') (Fin 1) (Fin 1) (Fin 1),
           MasterQtyMissing (1, ''r1''), Summary 1 1]"
  by code_simp



subsection \<open>C9\<close>




end
